theory Spec2Isabelle
  imports Main
begin

section \<open>Data model\<close>

text \<open>
  The asynchronous command queue of wlvyr-common: \<^verbatim>\<open>QueueCommand\<close>,
  \<^verbatim>\<open>UserCommand\<close>, \<^verbatim>\<open>RetryPolicyEvaluator\<close>, \<^verbatim>\<open>QueueConsumer\<close>,
  \<^verbatim>\<open>ItemConsolidator\<close> and \<^verbatim>\<open>CommandSyncOrchestrator\<close>.

  JavaScript runs one job at a time. A call runs synchronously to its end (or, inside an
  \<^verbatim>\<open>async\<close> function, to its next \<^verbatim>\<open>await\<close>); what is left to do is a job in the
  microtask queue: a promise reaction (the callback given to \<^verbatim>\<open>then\<close>) or the rest of
  an \<^verbatim>\<open>async\<close> function after its \<^verbatim>\<open>await\<close>. The model keeps that queue in the
  state, so each source function is a function from state to state and the interleavings
  of the program are the orders in which calls and jobs are run.
\<close>

subsection \<open>queue-status.js, queue-info.js\<close>

datatype QueueStatus = Initial | Processing | Complete

record QueueInfo =
  attemptNo :: int
  dateCreated :: int
  status :: QueueStatus

definition QueueInfo_new :: "int \<Rightarrow> QueueInfo" where
  \<comment> \<open>The argument is the value of \<^verbatim>\<open>Date.now()\<close> at construction.\<close>
  "QueueInfo_new now = \<lparr>attemptNo = 0, dateCreated = now, status = Initial\<rparr>"

subsection \<open>Promises and their reactions\<close>

text \<open>
  The callbacks the program passes to \<^verbatim>\<open>then\<close>. Queue commands are heap objects and are
  named by their address, a natural number.
  \<^item> \<open>CompleteOnExecute q\<close>: in \<^verbatim>\<open>#processCommand\<close>,
    \<^verbatim>\<open>(success) => this.completedCommandExecution(queueCommand, success || false)\<close>;
  \<^item> \<open>RemoveOnComplete q\<close>: in \<^verbatim>\<open>handleCommandAsync\<close>,
    \<^verbatim>\<open>async (success) => await this.#removeQueueCommandAsync(queueCommand)\<close>;
  \<^item> \<open>External k\<close>: a callback of the caller, which records the value it is given.
\<close>

datatype reaction = CompleteOnExecute nat | RemoveOnComplete nat | External nat

text \<open>
  What \<^verbatim>\<open>onComplete()\<close> and \<^verbatim>\<open>onExecute()\<close> return: the pending promise the object
  holds, or \<^verbatim>\<open>Promise.resolve(result)\<close>.
\<close>

datatype future = Pending | Resolved "bool option"

text \<open>
  The objects \<^verbatim>\<open>_onComplete\<close> of a queue command and \<^verbatim>\<open>_onExecute\<close> of a user
  command have the same four fields. \<open>resolve\<close> tells whether the resolver of the promise
  is held (it is \<^verbatim>\<open>undefined\<close> otherwise); \<open>promise\<close> is the pending promise, given by
  the reactions registered on it so far, in order; \<open>settled\<close> is the field
  \<^verbatim>\<open>completed\<close> of \<^verbatim>\<open>_onComplete\<close> and the field \<^verbatim>\<open>executed\<close> of \<^verbatim>\<open>_onExecute\<close>.
\<close>

record Deferred =
  resolve :: bool
  promise :: "reaction list option"
  settled :: bool
  result :: "bool option"

definition Deferred_new :: Deferred where
  "Deferred_new = \<lparr>resolve = False, promise = None, settled = False, result = None\<rparr>"

subsection \<open>user-command-meta.js, user-command.js\<close>

datatype jsval = JNum int | JStr string | JBool bool | JNull

type_synonym payload = "string \<rightharpoonup> jsval"

record UserCommandMeta =
  resourceId :: "string option"
  contextId :: "string option"
  uuid :: string
  timestamp :: int
  isPatch :: bool
  isSensitiveData :: bool

definition ReferenceId :: "UserCommandMeta \<Rightarrow> string" where
  "ReferenceId m =
     (case contextId m of None \<Rightarrow> [] | Some c \<Rightarrow> c) @
     (case resourceId m of None \<Rightarrow> [] | Some r \<Rightarrow> r) @ uuid m"

text \<open>
  A user command. Its \<^verbatim>\<open>_onExecute\<close> object is shared by every copy of the command
  (the spread copy made on consolidation keeps the reference and the two arrow functions
  bound to the original), so it lives in the heap and \<open>onExecuteRef\<close> is its address.
\<close>

record UserCommand =
  type_tag :: string
  payload :: payload
  meta :: UserCommandMeta
  onExecuteRef :: nat

definition onExecute :: "Deferred \<Rightarrow> future \<times> Deferred" where
  "onExecute d =
     (if settled d then (Resolved (result d), d)
      else if promise d = None then (Pending, d\<lparr>promise := Some [], resolve := True\<rparr>)
      else (Pending, d))"

text \<open>
  \<^verbatim>\<open>executed(success)\<close>. Resolving the promise schedules one job for each reaction
  registered on it; the jobs are returned with the updated object.
\<close>

definition executed :: "bool \<Rightarrow> Deferred \<Rightarrow> (reaction \<times> bool option) list \<times> Deferred" where
  "executed success d =
     (if resolve d
      then (map (\<lambda>r. (r, Some success)) (case promise d of None \<Rightarrow> [] | Some rs \<Rightarrow> rs),
            d\<lparr>settled := True, result := Some success, resolve := False, promise := None\<rparr>)
      else ([], d))"

subsection \<open>queue-command.js\<close>

text \<open>
  The methods of \<^verbatim>\<open>QueueCommand\<close> and of \<^verbatim>\<open>UserCommand\<close> are arrow functions held in
  fields of each object, and \<^verbatim>\<open>ReferenceId\<close> is a getter on the prototype of
  \<^verbatim>\<open>UserCommandMeta\<close>. \<open>methods\<close> tells whether the object and the objects in it were
  made by the constructors, and so have them, or were read back from a storage.
\<close>

record QueueCommand =
  command :: UserCommand
  queueInfo :: QueueInfo
  onCompleteObj :: Deferred
  onStatusUpdateListeners :: "nat list"
  methods :: bool

datatype error = ArgumentUndefined string | Uninitialized

definition QueueCommand_new :: "UserCommand option \<Rightarrow> int \<Rightarrow> error + QueueCommand" where
  "QueueCommand_new userCommand now =
     (case userCommand of
        None \<Rightarrow> Inl (ArgumentUndefined ''userCommand'')
      | Some c \<Rightarrow> Inr \<lparr>command = c, queueInfo = QueueInfo_new now,
                       onCompleteObj = Deferred_new, onStatusUpdateListeners = [],
                       methods = True\<rparr>)"

text \<open>
  What \<^verbatim>\<open>JSON.parse(JSON.stringify(queueCommand))\<close> gives: the data fields are kept;
  the methods and the resolver, which are functions, are left out; the promise, when
  there is one, becomes an empty object, and so does the \<^verbatim>\<open>Set\<close> of listeners: no
  reaction and no listener is kept.
\<close>

definition serialized :: "QueueCommand \<Rightarrow> QueueCommand" where
  "serialized qc =
     \<lparr>command = command qc, queueInfo = queueInfo qc,
      onCompleteObj =
        \<lparr>resolve = False, promise = map_option (\<lambda>reactions. []) (promise (onCompleteObj qc)),
         settled = settled (onCompleteObj qc), result = result (onCompleteObj qc)\<rparr>,
      onStatusUpdateListeners = [], methods = False\<rparr>"

definition addOnStatusUpdate :: "nat \<Rightarrow> QueueCommand \<Rightarrow> QueueCommand" where
  "addOnStatusUpdate l qc =
     qc\<lparr>onStatusUpdateListeners :=
          (if l \<in> set (onStatusUpdateListeners qc) then onStatusUpdateListeners qc
           else onStatusUpdateListeners qc @ [l])\<rparr>"

definition removeOnStatusUpdate :: "nat \<Rightarrow> QueueCommand \<Rightarrow> QueueCommand" where
  "removeOnStatusUpdate l qc =
     qc\<lparr>onStatusUpdateListeners := removeAll l (onStatusUpdateListeners qc)\<rparr>"

definition onComplete :: "QueueCommand \<Rightarrow> future \<times> QueueCommand" where
  "onComplete qc =
     (let d = onCompleteObj qc in
      if settled d then (Resolved (result d), qc)
      else if promise d = None
      then (Pending, qc\<lparr>onCompleteObj := d\<lparr>promise := Some [], resolve := True\<rparr>\<rparr>)
      else (Pending, qc))"

definition completed :: "bool \<Rightarrow> QueueCommand \<Rightarrow> (reaction \<times> bool option) list \<times> QueueCommand" where
  "completed success qc =
     (let d = onCompleteObj qc in
      if resolve d
      then (map (\<lambda>r. (r, Some success)) (case promise d of None \<Rightarrow> [] | Some rs \<Rightarrow> rs),
            qc\<lparr>onCompleteObj :=
                 d\<lparr>settled := True, result := Some success, resolve := False, promise := None\<rparr>\<rparr>)
      else ([], qc))"

text \<open>
  \<^verbatim>\<open>onStatusUpdate(status)\<close> calls each listener with the status; a listener is an
  observer of the caller and the call is recorded as the pair of the listener and the
  status.
\<close>

definition onStatusUpdate :: "QueueStatus \<Rightarrow> QueueCommand \<Rightarrow> (nat \<times> QueueStatus) list" where
  "onStatusUpdate st qc = map (\<lambda>l. (l, st)) (onStatusUpdateListeners qc)"

subsection \<open>retry-condition.js, retry-policy-evaluator.js\<close>

text \<open>
  A retry condition is the built-in \<^verbatim>\<open>AttempNoRetryCondition(retryCount)\<close> or a
  condition of the caller, given by its \<^verbatim>\<open>shouldRetry\<close>. (The base class
  \<^verbatim>\<open>IRetryCondition\<close>, whose \<^verbatim>\<open>shouldRetry\<close> throws, is not among them.)
\<close>

datatype RetryCondition =
    AttempNoRetryCondition int
  | CustomRetryCondition "UserCommand \<Rightarrow> QueueInfo \<Rightarrow> bool"

fun shouldRetry :: "RetryCondition \<Rightarrow> UserCommand \<Rightarrow> QueueInfo \<Rightarrow> bool" where
  "shouldRetry (AttempNoRetryCondition retryCount) c info = (attemptNo info < retryCount)"
| "shouldRetry (CustomRetryCondition f) c info = f c info"

definition RetryPolicyEvaluator_shouldRetry ::
  "RetryCondition list \<Rightarrow> UserCommand \<Rightarrow> QueueInfo \<Rightarrow> bool" where
  "RetryPolicyEvaluator_shouldRetry conditions c info =
     list_ex (\<lambda>condition. shouldRetry condition c info) conditions"

subsection \<open>iobject-consolidator.js\<close>

text \<open>
  \<^verbatim>\<open>ItemConsolidator.consolidate\<close>: the object spread \<^verbatim>\<open>{ ...object1, ...object2 }\<close>.
  An object is the map from its keys to their values.
\<close>

definition consolidate :: "payload \<Rightarrow> payload \<Rightarrow> payload" where
  "consolidate object1 object2 = object1 ++ object2"

section \<open>The state of the program\<close>

text \<open>
  The jobs of the microtask queue: a promise reaction with the value the promise was
  resolved with, and the rest of each \<^verbatim>\<open>async\<close> function after its \<^verbatim>\<open>await\<close>:
  \<^verbatim>\<open>#consume\<close> after the wait promise, \<^verbatim>\<open>#removeQueueCommandAsync\<close> after
  \<^verbatim>\<open>removeAsync\<close>, \<^verbatim>\<open>handleCommandAsync\<close> after \<^verbatim>\<open>saveAsync\<close>,
  \<^verbatim>\<open>#loadCommandsAsync\<close> after \<^verbatim>\<open>loadByKeyPrefixAsync\<close> (with the loaded value) and
  \<^verbatim>\<open>initializeAsync\<close> after \<^verbatim>\<open>#loadCommandsAsync\<close>.
\<close>

datatype task =
    Job reaction "bool option"
  | ConsumeRest
  | RemoveQueueCommandRest nat
  | HandleCommandRest nat
  | LoadCommandsRest "QueueCommand list option"
  | InitializeRest

text \<open>What a call of the work executor \<^verbatim>\<open>consumeFunc\<close> does before it returns.\<close>

datatype outcome = Returns | Throws

datatype storage_call = SaveAsync string | RemoveAsync string | LoadByKeyPrefixAsync string

text \<open>
  One record holds the heap, the fields of the \<^verbatim>\<open>QueueConsumer\<close>, the fields of the
  \<^verbatim>\<open>CommandSyncOrchestrator\<close> built on it, the microtask queue and what the
  collaborators have seen.
  \<^item> \<open>qheap\<close>: the queue commands, by address; \<open>next_q\<close> is the next free address.
  \<^item> \<open>xheap\<close>: the \<^verbatim>\<open>_onExecute\<close> object of each user command.
  \<^item> \<open>consumeFunc\<close>: the executor decides from the commands it was called with before
    and the command it is called with; \<open>executorCalls\<close> lists its calls.
  \<^item> \<open>consumeConditions\<close>: predicates over \<^verbatim>\<open>queueState.processCount\<close>.
  \<^item> \<open>processCount\<close>: the field \<^verbatim>\<open>queueState.processCount\<close>.
  \<^item> \<open>queue\<close>, \<open>queueCommands\<close>: JavaScript \<^verbatim>\<open>Set\<close>s, as lists without
    repetition in insertion order.
  \<^item> \<open>resumeResolver\<close>: whether the resolver of the wait promise of \<^verbatim>\<open>#consume\<close>
    is held.
  \<^item> \<open>offlineStorage\<close>: the persistence collaborator (\<^verbatim>\<open>undefined\<close> when \<open>None\<close>), a
    key-value store that takes each call into account when it is made, keeps each
    value in its serialized form and returns deserialized objects
    (\<^verbatim>\<open>IStorage\<close>; \<^verbatim>\<open>EncryptedStorage\<close> over \<^verbatim>\<open>PasswordCipher\<close> writes with
    \<^verbatim>\<open>JSON.stringify\<close> and reads with \<^verbatim>\<open>JSON.parse\<close>).
  \<^item> \<open>patchQueueCommands\<close>: a \<^verbatim>\<open>Map\<close>; a key is a \<^verbatim>\<open>resourceId\<close>, which can be
    \<^verbatim>\<open>undefined\<close>.
  \<^item> \<open>commandConsolidator\<close>: the \<^verbatim>\<open>consolidate\<close> of the consolidation collaborator,
    a function of two payloads (\<^verbatim>\<open>undefined\<close> when \<open>None\<close>).
  \<^item> \<open>notifications\<close>: the calls of status listeners, which return normally;
    \<open>observed\<close>: the values given to the caller's promise callbacks; \<open>unhandled\<close>: the
    number of errors the program raises and does not catch (a rejected promise nobody
    handles, a \<^verbatim>\<open>TypeError\<close> that leaves a public method).
\<close>

record world =
  qheap :: "nat \<rightharpoonup> QueueCommand"
  next_q :: nat
  xheap :: "nat \<Rightarrow> Deferred"
  clock :: int
  consumeFunc :: "UserCommand list \<Rightarrow> UserCommand \<Rightarrow> outcome"
  consumeConditions :: "(int \<Rightarrow> bool) list"
  retryPolicyEvaluator :: "RetryCondition list option"
  isRunning :: bool
  processCount :: int
  queue :: "nat list"
  resumeResolver :: bool
  orchestratorId :: string
  commandConsolidator :: "(payload \<Rightarrow> payload \<Rightarrow> payload) option"
  offlineStorage :: "(string \<times> QueueCommand) list option"
  queueCommands :: "nat list"
  patchQueueCommands :: "string option \<rightharpoonup> nat"
  initialized :: bool
  tasks :: "task list"
  executorCalls :: "UserCommand list"
  notifications :: "(nat \<times> QueueStatus) list"
  observed :: "(nat \<times> bool option) list"
  storageCalls :: "storage_call list"
  unhandled :: nat

definition Set_add :: "'a \<Rightarrow> 'a list \<Rightarrow> 'a list" where
  "Set_add x xs = (if x \<in> set xs then xs else xs @ [x])"

definition Set_delete :: "'a \<Rightarrow> 'a list \<Rightarrow> 'a list" where
  "Set_delete x xs = removeAll x xs"

subsection \<open>Promise plumbing\<close>

text \<open>
  \<^verbatim>\<open>p.then(r)\<close> for the future \<open>f\<close> returned by the object \<open>d\<close>: on a resolved promise
  the reaction becomes a job at once, on the pending promise it is registered.
\<close>

definition then_reaction :: "reaction \<Rightarrow> future \<Rightarrow> Deferred \<Rightarrow> task list \<times> Deferred" where
  "then_reaction r f d =
     (case f of
        Resolved v \<Rightarrow> ([Job r v], d)
      | Pending \<Rightarrow>
          ([], d\<lparr>promise := Some ((case promise d of None \<Rightarrow> [] | Some rs \<Rightarrow> rs) @ [r])\<rparr>))"

text \<open>\<^verbatim>\<open>userCommand.onExecute().then(r)\<close>\<close>

definition onExecute_then :: "nat \<Rightarrow> reaction \<Rightarrow> world \<Rightarrow> world" where
  "onExecute_then x r w =
     (case onExecute (xheap w x) of (f, d) \<Rightarrow>
        (case then_reaction r f d of (js, d') \<Rightarrow>
           w\<lparr>xheap := (xheap w)(x := d'), tasks := tasks w @ js\<rparr>))"

text \<open>\<^verbatim>\<open>userCommand.executed(success)\<close>, called by the executor or its caller.\<close>

definition UserCommand_executed :: "nat \<Rightarrow> bool \<Rightarrow> world \<Rightarrow> world" where
  "UserCommand_executed x success w =
     (case executed success (xheap w x) of (js, d) \<Rightarrow>
        w\<lparr>xheap := (xheap w)(x := d), tasks := tasks w @ map (\<lambda>(r, v). Job r v) js\<rparr>)"

text \<open>\<^verbatim>\<open>queueCommand.onComplete().then(r)\<close>\<close>

definition onComplete_then :: "nat \<Rightarrow> reaction \<Rightarrow> world \<Rightarrow> world" where
  "onComplete_then q r w =
     (case qheap w q of
        None \<Rightarrow> w\<lparr>unhandled := unhandled w + 1\<rparr>
      | Some qc \<Rightarrow>
          (if methods qc
           then (case onComplete qc of (f, qc1) \<Rightarrow>
                   (case then_reaction r f (onCompleteObj qc1) of (js, d) \<Rightarrow>
                      w\<lparr>qheap := (qheap w)(q \<mapsto> qc1\<lparr>onCompleteObj := d\<rparr>), tasks := tasks w @ js\<rparr>))
           else w\<lparr>unhandled := unhandled w + 1\<rparr>))"

text \<open>
  \<^verbatim>\<open>queueCommand?.completed(success)\<close>. On an object without methods
  \<^verbatim>\<open>queueCommand.completed\<close> is \<^verbatim>\<open>undefined\<close> and the call raises a \<^verbatim>\<open>TypeError\<close>;
  so do the calls of \<^verbatim>\<open>onComplete\<close>, \<^verbatim>\<open>addOnStatusUpdate\<close> and \<^verbatim>\<open>onStatusUpdate\<close>.
\<close>

definition completed_at :: "nat \<Rightarrow> bool \<Rightarrow> world \<Rightarrow> world" where
  "completed_at q success w =
     (case qheap w q of
        None \<Rightarrow> w
      | Some qc \<Rightarrow>
          (if methods qc
           then (case completed success qc of (js, qc') \<Rightarrow>
                   w\<lparr>qheap := (qheap w)(q \<mapsto> qc'), tasks := tasks w @ map (\<lambda>(r, v). Job r v) js\<rparr>)
           else w\<lparr>unhandled := unhandled w + 1\<rparr>))"

text \<open>\<^verbatim>\<open>queueCommand.addOnStatusUpdate(l)\<close>\<close>

definition addOnStatusUpdate_at :: "nat \<Rightarrow> nat \<Rightarrow> world \<Rightarrow> world" where
  "addOnStatusUpdate_at q l w =
     (case qheap w q of
        None \<Rightarrow> w
      | Some qc \<Rightarrow>
          (if methods qc then w\<lparr>qheap := (qheap w)(q \<mapsto> addOnStatusUpdate l qc)\<rparr>
           else w\<lparr>unhandled := unhandled w + 1\<rparr>))"

text \<open>\<^verbatim>\<open>queueCommand.queueInfo.status = st\<close>\<close>

definition set_status :: "nat \<Rightarrow> QueueStatus \<Rightarrow> world \<Rightarrow> world" where
  "set_status q st w =
     (case qheap w q of
        None \<Rightarrow> w
      | Some qc \<Rightarrow> w\<lparr>qheap := (qheap w)(q \<mapsto> qc\<lparr>queueInfo := (queueInfo qc)\<lparr>status := st\<rparr>\<rparr>)\<rparr>)"

text \<open>\<^verbatim>\<open>queueCommand.onStatusUpdate(st)\<close>\<close>

definition onStatusUpdate_at :: "nat \<Rightarrow> QueueStatus \<Rightarrow> world \<Rightarrow> world" where
  "onStatusUpdate_at q st w =
     (case qheap w q of
        None \<Rightarrow> w
      | Some qc \<Rightarrow>
          (if methods qc then w\<lparr>notifications := notifications w @ onStatusUpdate st qc\<rparr>
           else w\<lparr>unhandled := unhandled w + 1\<rparr>))"

section \<open>queue-consumer.js\<close>

definition resumeOnConditionsSatisfied :: "world \<Rightarrow> world" where
  "resumeOnConditionsSatisfied w =
     (if isRunning w \<and> queue w \<noteq> [] \<and> resumeResolver w \<and>
         list_all (\<lambda>conditionSatisfied. conditionSatisfied (processCount w)) (consumeConditions w)
      then w\<lparr>tasks := tasks w @ [ConsumeRest], resumeResolver := False\<rparr>
      else w)"

definition shouldConsumerWait :: "world \<Rightarrow> bool" where
  "shouldConsumerWait w =
     (queue w = [] \<or> list_ex (\<lambda>condition. \<not> condition (processCount w)) (consumeConditions w))"

definition QueueConsumer_stop :: "world \<Rightarrow> world" where
  "QueueConsumer_stop w = w\<lparr>isRunning := False\<rparr>"

text \<open>
  \<^verbatim>\<open>enqueue\<close>. Its two checks reject an argument without \<^verbatim>\<open>command\<close> or
  \<^verbatim>\<open>queueInfo\<close>; a \<open>QueueCommand\<close> has both, so they pass.
\<close>

definition QueueConsumer_enqueue :: "nat \<Rightarrow> world \<Rightarrow> world" where
  "QueueConsumer_enqueue q w = resumeOnConditionsSatisfied (w\<lparr>queue := Set_add q (queue w)\<rparr>)"

definition QueueConsumer_remove :: "nat \<Rightarrow> world \<Rightarrow> world" where
  "QueueConsumer_remove q w = w\<lparr>queue := Set_delete q (queue w)\<rparr>"

definition consumeConditionStateUpdatedEvtListenerAction :: "world \<Rightarrow> world" where
  "consumeConditionStateUpdatedEvtListenerAction w = resumeOnConditionsSatisfied w"

definition dequeue :: "world \<Rightarrow> nat option \<times> world" where
  "dequeue w = (case queue w of [] \<Rightarrow> (None, w) | nextItem # rest \<Rightarrow> (Some nextItem, w\<lparr>queue := rest\<rparr>))"

text \<open>
  \<^verbatim>\<open>#handleRetry\<close>. Called with \<^verbatim>\<open>undefined\<close> it raises a \<^verbatim>\<open>TypeError\<close>. For an
  object without methods a granted retry runs as for any other; when the retry is denied
  the status is set and the call of \<^verbatim>\<open>onStatusUpdate\<close> raises a \<^verbatim>\<open>TypeError\<close>:
  \<^verbatim>\<open>completed\<close> is not called and the count is not decremented.
\<close>

definition handleRetry :: "nat \<Rightarrow> world \<Rightarrow> world" where
  "handleRetry q w =
     (case qheap w q of
        None \<Rightarrow> w\<lparr>unhandled := unhandled w + 1\<rparr>
      | Some qc \<Rightarrow>
          (let info = (queueInfo qc)\<lparr>attemptNo := attemptNo (queueInfo qc) + 1\<rparr>;
               w1 = w\<lparr>qheap := (qheap w)(q \<mapsto> qc\<lparr>queueInfo := info\<rparr>)\<rparr>;
               retry = (case retryPolicyEvaluator w of
                          None \<Rightarrow> False
                        | Some conditions \<Rightarrow> RetryPolicyEvaluator_shouldRetry conditions (command qc) info);
               w2 = (if retry
                     then resumeOnConditionsSatisfied (QueueConsumer_enqueue q (set_status q Initial w1))
                     else completed_at q False (onStatusUpdate_at q Complete (set_status q Complete w1)))
           in if retry \<or> methods qc then w2\<lparr>processCount := processCount w2 - 1\<rparr>
              else onStatusUpdate_at q Complete (set_status q Complete w1)))"

text \<open>
  \<^verbatim>\<open>completedCommandExecution\<close>. For an object without methods the call of
  \<^verbatim>\<open>completed\<close>, or the call of \<^verbatim>\<open>onStatusUpdate\<close> in \<^verbatim>\<open>#handleRetry\<close> when the
  retry is denied, raises a \<^verbatim>\<open>TypeError\<close>, which leaves the method: the statements
  after the call (the decrement of the count, the wake-up of the loop) are not run.
  Whether \<^verbatim>\<open>#handleRetry\<close> raised shows in the count of errors.
\<close>

definition plain_object :: "nat \<Rightarrow> world \<Rightarrow> bool" where
  "plain_object q w = (case qheap w q of None \<Rightarrow> False | Some qc \<Rightarrow> \<not> methods qc)"

definition completedCommandExecution :: "nat \<Rightarrow> bool \<Rightarrow> world \<Rightarrow> world" where
  "completedCommandExecution q success w =
     (if plain_object q w
      then (if success then completed_at q True (set_status q Complete w)
            else (let w1 = handleRetry q w
                  in if unhandled w1 = unhandled w then resumeOnConditionsSatisfied w1 else w1))
      else resumeOnConditionsSatisfied
             (if success
              then (let w1 = completed_at q True (set_status q Complete w)
                    in w1\<lparr>processCount := processCount w1 - 1\<rparr>)
              else handleRetry q w))"

text \<open>
  \<^verbatim>\<open>#processCommand\<close>. It has no \<^verbatim>\<open>await\<close>, so it runs to its end when called.
  Called with \<^verbatim>\<open>undefined\<close> (the queue was empty) it throws a \<^verbatim>\<open>TypeError\<close> in the
  \<^verbatim>\<open>try\<close> block and another in \<^verbatim>\<open>#handleRetry\<close>, and the promise it returns, which
  nobody awaits, is rejected. Called with an object without methods, the first call in
  the \<^verbatim>\<open>try\<close> block, \<^verbatim>\<open>userCommand.onExecute()\<close>, raises a \<^verbatim>\<open>TypeError\<close>, and the
  \<^verbatim>\<open>catch\<close> block runs \<^verbatim>\<open>#handleRetry\<close>: the status and the count have not been
  changed and the executor is not called.
\<close>

definition processCommand :: "nat option \<Rightarrow> world \<Rightarrow> world" where
  "processCommand queueCommand w =
     (case queueCommand of
        None \<Rightarrow> w\<lparr>unhandled := unhandled w + 1\<rparr>
      | Some q \<Rightarrow>
          (case qheap w q of
             None \<Rightarrow> w\<lparr>unhandled := unhandled w + 1\<rparr>
           | Some qc \<Rightarrow>
               (if methods qc
                then (let userCommand = command qc;
                          w1 = onExecute_then (onExecuteRef userCommand) (CompleteOnExecute q) w;
                          w2 = onStatusUpdate_at q Processing (set_status q Processing w1);
                          w3 = w2\<lparr>processCount := processCount w2 + 1\<rparr>;
                          w4 = w3\<lparr>executorCalls := executorCalls w3 @ [userCommand]\<rparr>
                      in case consumeFunc w (executorCalls w3) userCommand of
                           Returns \<Rightarrow> w4
                         | Throws \<Rightarrow> handleRetry q w4)
                else handleRetry q w)))"

text \<open>
  \<^verbatim>\<open>#consume\<close>, from the head of its \<^verbatim>\<open>while\<close> loop. The loop runs on until it
  awaits the wait promise (\<^verbatim>\<open>#createWaitPromise\<close> stores the resolver) or finds
  \<^verbatim>\<open>isRunning\<close> false. An executor that throws each time, under a retry policy that
  grants each retry, keeps it running for ever: the function takes fuel and returns
  \<open>None\<close> when the fuel does not suffice.
\<close>

fun consume :: "nat \<Rightarrow> world \<Rightarrow> world option" where
  "consume 0 w = None"
| "consume (Suc n) w =
     (if \<not> isRunning w then Some w
      else if shouldConsumerWait w then Some (w\<lparr>resumeResolver := True\<rparr>)
      else (case dequeue w of (queueCommand, w1) \<Rightarrow> consume n (processCommand queueCommand w1)))"

text \<open>
  The rest of \<^verbatim>\<open>#consume\<close> after \<^verbatim>\<open>await this.#createWaitPromise(this)\<close>: the
  statements after the \<^verbatim>\<open>if\<close>, then the loop again.
\<close>

definition consume_rest :: "nat \<Rightarrow> world \<Rightarrow> world option" where
  "consume_rest n w =
     (case dequeue w of (queueCommand, w1) \<Rightarrow> consume n (processCommand queueCommand w1))"

definition QueueConsumer_start :: "nat \<Rightarrow> world \<Rightarrow> world option" where
  "QueueConsumer_start n w =
     (let wasRunning = isRunning w;
          w1 = resumeOnConditionsSatisfied (w\<lparr>isRunning := True\<rparr>)
      in if \<not> wasRunning then consume n w1 else Some w1)"

section \<open>command-sync-orchestrator.js\<close>

subsection \<open>The persistence collaborator\<close>

definition storage_save :: "string \<Rightarrow> 'v \<Rightarrow> (string \<times> 'v) list \<Rightarrow> (string \<times> 'v) list" where
  "storage_save k v st =
     (if k \<in> set (map fst st) then map (\<lambda>(k', v'). if k' = k then (k, v) else (k', v')) st
      else st @ [(k, v)])"

definition storage_remove :: "string \<Rightarrow> (string \<times> 'v) list \<Rightarrow> (string \<times> 'v) list" where
  "storage_remove k st = filter (\<lambda>(k', v'). k' \<noteq> k) st"

definition storage_loadByKeyPrefix :: "string \<Rightarrow> (string \<times> 'v) list \<Rightarrow> 'v list" where
  "storage_loadByKeyPrefix keyPrefix st =
     map snd (filter (\<lambda>(k', v'). take (length keyPrefix) k' = keyPrefix) st)"

subsection \<open>The orchestrator\<close>

text \<open>
  \<^verbatim>\<open>#getKey\<close>. The \<^verbatim>\<open>meta\<close> of a command read back from the storage is an object
  without the getter: \<^verbatim>\<open>meta.ReferenceId\<close> is \<^verbatim>\<open>undefined\<close>.
\<close>

definition getKey :: "world \<Rightarrow> QueueCommand \<Rightarrow> string" where
  "getKey w qc =
     orchestratorId w @ ''-'' @
       (if methods qc then ReferenceId (meta (command qc)) else ''undefined'')"

text \<open>\<^verbatim>\<open>new QueueCommand(userCommand)\<close>: the object is allocated at the next free address.\<close>

definition new_QueueCommand :: "UserCommand \<Rightarrow> world \<Rightarrow> nat \<times> world" where
  "new_QueueCommand c w =
     (case QueueCommand_new (Some c) (clock w) of
        Inl e \<Rightarrow> (next_q w, w)
      | Inr qc \<Rightarrow> (next_q w, w\<lparr>qheap := (qheap w)(next_q w \<mapsto> qc), next_q := next_q w + 1\<rparr>))"

text \<open>
  \<^verbatim>\<open>#removeQueueCommandAsync\<close>, up to its \<^verbatim>\<open>await\<close>: the storage is asked to remove
  the record; the three statements after the \<^verbatim>\<open>await\<close> are a job.
\<close>

definition removeQueueCommandAsync :: "nat \<Rightarrow> world \<Rightarrow> world" where
  "removeQueueCommandAsync q w =
     (case qheap w q of
        None \<Rightarrow> w\<lparr>unhandled := unhandled w + 1\<rparr>
      | Some qc \<Rightarrow>
          (let w1 = (case offlineStorage w of
                       None \<Rightarrow> w
                     | Some st \<Rightarrow>
                         w\<lparr>offlineStorage := Some (storage_remove (getKey w qc) st),
                           storageCalls := storageCalls w @ [RemoveAsync (getKey w qc)]\<rparr>)
           in w1\<lparr>tasks := tasks w1 @ [RemoveQueueCommandRest q]\<rparr>))"

definition removeQueueCommand_rest :: "nat \<Rightarrow> world \<Rightarrow> world" where
  "removeQueueCommand_rest q w =
     (case qheap w q of
        None \<Rightarrow> w\<lparr>unhandled := unhandled w + 1\<rparr>
      | Some qc \<Rightarrow>
          QueueConsumer_remove q
            (w\<lparr>queueCommands := Set_delete q (queueCommands w),
               patchQueueCommands := (patchQueueCommands w)(resourceId (meta (command qc)) := None)\<rparr>))"

definition buildConsolidatedCommand :: "UserCommand \<Rightarrow> world \<Rightarrow> nat \<times> world" where
  "buildConsolidatedCommand userCommand w =
     (let commandMeta = meta userCommand;
          consolidated =
            (case patchQueueCommands w (resourceId commandMeta) of
               None \<Rightarrow> None
             | Some existingQueueCommand \<Rightarrow>
                 (case qheap w existingQueueCommand of
                    None \<Rightarrow> None
                  | Some eqc \<Rightarrow>
                      (if status (queueInfo eqc) = Initial
                       then (case commandConsolidator w of
                               None \<Rightarrow> None
                             | Some consolidator \<Rightarrow>
                                 (let newPayload = consolidator (payload userCommand) (payload (command eqc))
                                  in Some (new_QueueCommand (userCommand\<lparr>payload := newPayload\<rparr>)
                                             (removeQueueCommandAsync existingQueueCommand w))))
                       else None)))
      in case (case consolidated of None \<Rightarrow> new_QueueCommand userCommand w | Some r \<Rightarrow> r) of
           (q, w1) \<Rightarrow> (q, w1\<lparr>patchQueueCommands := (patchQueueCommands w1)(resourceId commandMeta \<mapsto> q)\<rparr>))"

definition consolidateCommand :: "nat \<Rightarrow> UserCommand \<Rightarrow> world \<Rightarrow> (nat \<times> world) option" where
  "consolidateCommand n userCommand w =
     (case buildConsolidatedCommand userCommand (QueueConsumer_stop w) of
        (q, w1) \<Rightarrow> map_option (Pair q) (QueueConsumer_start n w1))"

text \<open>A \<^verbatim>\<open>resourceId\<close> is falsy when it is \<^verbatim>\<open>undefined\<close> or the empty string.\<close>

definition truthy :: "string option \<Rightarrow> bool" where
  "truthy s = (case s of None \<Rightarrow> False | Some r \<Rightarrow> r \<noteq> [])"

text \<open>\<^verbatim>\<open>await this.offlineStorage?.saveAsync(this.#getKey(queueCommand), queueCommand)\<close>\<close>

definition saveAsync_at :: "nat \<Rightarrow> world \<Rightarrow> world" where
  "saveAsync_at q w =
     (case offlineStorage w of
        None \<Rightarrow> w
      | Some st \<Rightarrow>
          (case qheap w q of
             None \<Rightarrow> w
           | Some qc \<Rightarrow>
               w\<lparr>offlineStorage := Some (storage_save (getKey w qc) (serialized qc) st),
                 storageCalls := storageCalls w @ [SaveAsync (getKey w qc)]\<rparr>))"

text \<open>
  \<^verbatim>\<open>handleCommandAsync\<close>, up to its \<^verbatim>\<open>await\<close>. The error is the rejection of the
  promise it returns. \<open>None\<close>: the consumer loop started by the consolidation did not
  come to its wait within the fuel.
\<close>

definition handleCommandAsync :: "nat \<Rightarrow> UserCommand \<Rightarrow> world \<Rightarrow> (error + world) option" where
  "handleCommandAsync n userCommand w =
     (if \<not> initialized w then Some (Inl Uninitialized)
      else (case (if \<not> isPatch (meta userCommand) \<or> \<not> truthy (resourceId (meta userCommand))
                  then Some (new_QueueCommand userCommand w)
                  else consolidateCommand n userCommand w) of
              None \<Rightarrow> None
            | Some (q, w1) \<Rightarrow>
                (let w2 = saveAsync_at q (onComplete_then q (RemoveOnComplete q) w1)
                 in Some (Inr (w2\<lparr>tasks := tasks w2 @ [HandleCommandRest q]\<rparr>)))))"

definition handleCommand_rest :: "nat \<Rightarrow> world \<Rightarrow> world" where
  "handleCommand_rest q w = QueueConsumer_enqueue q (w\<lparr>queueCommands := Set_add q (queueCommands w)\<rparr>)"

definition Orchestrator_start :: "nat \<Rightarrow> world \<Rightarrow> (error + world) option" where
  "Orchestrator_start n w =
     (if \<not> initialized w then Some (Inl Uninitialized) else map_option Inr (QueueConsumer_start n w))"

definition Orchestrator_stop :: "world \<Rightarrow> error + world" where
  "Orchestrator_stop w = Inr (QueueConsumer_stop w)"

definition dispose :: "world \<Rightarrow> world" where
  "dispose w =
     (let w1 = foldl (\<lambda>w' queueCommand. removeQueueCommandAsync queueCommand w')
                 (QueueConsumer_stop w) (queueCommands w)
      in w1\<lparr>queueCommands := [], patchQueueCommands := Map.empty\<rparr>)"

text \<open>
  \<^verbatim>\<open>initializeAsync\<close> calls \<^verbatim>\<open>#loadCommandsAsync\<close>, which returns at once when the
  orchestrator is initialized and asks the storage otherwise; either way
  \<^verbatim>\<open>initializeAsync\<close> awaits it and sets \<^verbatim>\<open>initialized\<close> in a later job. The
  storage resolves to the deserialized objects.
\<close>

definition initializeAsync :: "world \<Rightarrow> world" where
  "initializeAsync w =
     (if initialized w then w\<lparr>tasks := tasks w @ [InitializeRest]\<rparr>
      else (case offlineStorage w of
              None \<Rightarrow> w\<lparr>tasks := tasks w @ [LoadCommandsRest None]\<rparr>
            | Some st \<Rightarrow>
                w\<lparr>storageCalls := storageCalls w @ [LoadByKeyPrefixAsync (orchestratorId w @ ''-'')],
                  tasks := tasks w @
                    [LoadCommandsRest
                       (Some (map serialized (storage_loadByKeyPrefix (orchestratorId w @ ''-'') st)))]\<rparr>))"

text \<open>
  The body of the \<^verbatim>\<open>forEach\<close> of \<^verbatim>\<open>#loadCommandsAsync\<close>: the new object, made from
  \<^verbatim>\<open>QueueCommand.prototype\<close>, takes the fields of the loaded one with
  \<^verbatim>\<open>Object.assign\<close>. The prototype holds no method (they are fields of the objects the
  constructor makes), and the loaded object, which the storage deserialized, holds data
  only: the new object has the data of the record and no method, and neither has its
  \<^verbatim>\<open>command\<close>.
\<close>

definition loadCommand :: "world \<Rightarrow> QueueCommand \<Rightarrow> world" where
  "loadCommand w obj =
     (let q = next_q w;
          w1 = w\<lparr>qheap := (qheap w)(q \<mapsto> obj), next_q := q + 1\<rparr>;
          w2 = QueueConsumer_enqueue q (w1\<lparr>queueCommands := Set_add q (queueCommands w1)\<rparr>);
          commandMeta = meta (command obj)
      in if isPatch commandMeta
         then w2\<lparr>patchQueueCommands := (patchQueueCommands w2)(resourceId commandMeta \<mapsto> q)\<rparr>
         else w2)"

definition loadCommands_rest :: "QueueCommand list option \<Rightarrow> world \<Rightarrow> world" where
  "loadCommands_rest data w =
     (let w1 = (case data of None \<Rightarrow> w | Some objs \<Rightarrow> foldl loadCommand w objs)
      in w1\<lparr>tasks := tasks w1 @ [InitializeRest]\<rparr>)"

definition initialize_rest :: "world \<Rightarrow> world" where
  "initialize_rest w = w\<lparr>initialized := True\<rparr>"

section \<open>Running the microtask queue\<close>

text \<open>\<^verbatim>\<open>success || false\<close>\<close>

definition or_false :: "bool option \<Rightarrow> bool" where
  "or_false v = (case v of None \<Rightarrow> False | Some b \<Rightarrow> b)"

fun run_task :: "nat \<Rightarrow> task \<Rightarrow> world \<Rightarrow> world option" where
  "run_task n (Job (CompleteOnExecute q) v) w = Some (completedCommandExecution q (or_false v) w)"
| "run_task n (Job (RemoveOnComplete q) v) w = Some (removeQueueCommandAsync q w)"
| "run_task n (Job (External k) v) w = Some (w\<lparr>observed := observed w @ [(k, v)]\<rparr>)"
| "run_task n ConsumeRest w = consume_rest n w"
| "run_task n (RemoveQueueCommandRest q) w = Some (removeQueueCommand_rest q w)"
| "run_task n (HandleCommandRest q) w = Some (handleCommand_rest q w)"
| "run_task n (LoadCommandsRest data) w = Some (loadCommands_rest data w)"
| "run_task n InitializeRest w = Some (initialize_rest w)"

text \<open>The job at the head of the microtask queue is taken off the queue and run.\<close>

definition run_next :: "nat \<Rightarrow> world \<Rightarrow> world option" where
  "run_next n w = (case tasks w of [] \<Rightarrow> Some w | t # ts \<Rightarrow> run_task n t (w\<lparr>tasks := ts\<rparr>))"

text \<open>
  The jobs are run in order until the queue is empty; a job can add jobs. The fuel bounds
  the number of jobs and the loop of each; \<open>None\<close> when it does not suffice.
\<close>

fun drain :: "nat \<Rightarrow> world \<Rightarrow> world option" where
  "drain 0 w = (case tasks w of [] \<Rightarrow> Some w | t # ts \<Rightarrow> None)"
| "drain (Suc n) w =
     (case tasks w of
        [] \<Rightarrow> Some w
      | t # ts \<Rightarrow> (case run_task n t (w\<lparr>tasks := ts\<rparr>) of None \<Rightarrow> None | Some w' \<Rightarrow> drain n w'))"

text \<open>
  A world with a consumer and an orchestrator as their constructors leave them, and
  nothing on the heap.
\<close>

definition new_world ::
  "(UserCommand list \<Rightarrow> UserCommand \<Rightarrow> outcome) \<Rightarrow> (int \<Rightarrow> bool) list \<Rightarrow> RetryCondition list option \<Rightarrow>
   string \<Rightarrow> (payload \<Rightarrow> payload \<Rightarrow> payload) option \<Rightarrow> (string \<times> QueueCommand) list option \<Rightarrow> world" where
  "new_world f conditions evaluator ident consolidator storage =
     \<lparr>qheap = Map.empty, next_q = 0, xheap = (\<lambda>x. Deferred_new), clock = 0,
      consumeFunc = f, consumeConditions = conditions, retryPolicyEvaluator = evaluator,
      isRunning = False, processCount = 0, queue = [], resumeResolver = False,
      orchestratorId = ident, commandConsolidator = consolidator, offlineStorage = storage,
      queueCommands = [], patchQueueCommands = Map.empty, initialized = False,
      tasks = [], executorCalls = [], notifications = [], observed = [], storageCalls = [],
      unhandled = 0\<rparr>"

section \<open>Scenarios\<close>

text \<open>
  Runs of the program used below. A run is a sequence of calls from outside (the caller,
  the executor) and of jobs; after a call from outside, jobs run before the next call.
\<close>

definition status_of :: "nat \<Rightarrow> world \<Rightarrow> QueueStatus option" where
  "status_of q w = map_option (\<lambda>qc. status (queueInfo qc)) (qheap w q)"

definition attemptNo_of :: "nat \<Rightarrow> world \<Rightarrow> int option" where
  "attemptNo_of q w = map_option (\<lambda>qc. attemptNo (queueInfo qc)) (qheap w q)"

text \<open>The number of queue commands on the heap whose status is \<open>Processing\<close>.\<close>

definition processing_count :: "world \<Rightarrow> nat" where
  "processing_count w = length (filter (\<lambda>q. status_of q w = Some Processing) [0 ..< next_q w])"

text \<open>Executors: one that returns, one that throws when first called, one that throws.\<close>

definition always_returns :: "UserCommand list \<Rightarrow> UserCommand \<Rightarrow> outcome" where
  "always_returns calls c = Returns"

definition throws_first :: "UserCommand list \<Rightarrow> UserCommand \<Rightarrow> outcome" where
  "throws_first calls c = (case calls of [] \<Rightarrow> Throws | c' # cs \<Rightarrow> Returns)"


text \<open>
  The executor, or its caller, calls \<^verbatim>\<open>executed(success)\<close> on the user command at
  \<open>x\<close>; then the first job runs.
\<close>

definition signal_then_run :: "nat \<Rightarrow> bool \<Rightarrow> world \<Rightarrow> world option" where
  "signal_then_run x success w = run_next 5 (UserCommand_executed x success w)"

text \<open>
  A consumer without conditions is built with the executor and the retry policy given;
  a queue command is made for \<open>c\<close>, at address 0; a caller takes its completion promise
  (callback 0) and registers status listener 7; the command is enqueued and the consumer
  started.
\<close>

definition one_command ::
  "(UserCommand list \<Rightarrow> UserCommand \<Rightarrow> outcome) \<Rightarrow> RetryCondition list option \<Rightarrow> UserCommand \<Rightarrow> world option" where
  "one_command f evaluator c =
     (case new_QueueCommand c (new_world f [] evaluator ''id'' None None) of
        (q, w1) \<Rightarrow>
          QueueConsumer_start 5
            (QueueConsumer_enqueue q (addOnStatusUpdate_at q 7 (onComplete_then q (External 0) w1))))"

text \<open>
  The consumer is started on an empty queue; then, in one synchronous block, a command is
  enqueued and removed again; then the first job runs.
\<close>

definition enqueue_then_remove :: "UserCommand \<Rightarrow> world option" where
  "enqueue_then_remove c =
     Option.bind (QueueConsumer_start 5 (new_world always_returns [] None ''id'' None None))
       (\<lambda>w. case new_QueueCommand c w of
               (q, w1) \<Rightarrow> run_next 5 (QueueConsumer_remove q (QueueConsumer_enqueue q w1)))"

text \<open>The user command with the fields of \<open>c\<close> whose \<^verbatim>\<open>_onExecute\<close> is at address \<open>x\<close>.\<close>

definition UserCommand_at :: "nat \<Rightarrow> UserCommand \<Rightarrow> UserCommand" where
  "UserCommand_at x c = \<lparr>type_tag = type_tag c, payload = payload c, meta = meta c, onExecuteRef = x\<rparr>"

text \<open>
  The consumer has the condition \<^verbatim>\<open>({ processCount }) => processCount < 1\<close> and is
  started on an empty queue; then, in one synchronous block, two commands (two objects:
  their \<^verbatim>\<open>_onExecute\<close> are at addresses 1 and 2) are enqueued and the consumer is
  stopped and started again.
\<close>

definition restart_while_woken :: "UserCommand \<Rightarrow> UserCommand \<Rightarrow> world option" where
  "restart_while_woken c1 c2 =
     Option.bind (QueueConsumer_start 5 (new_world always_returns [\<lambda>processCount. processCount < 1] None ''id'' None None))
       (\<lambda>w. case new_QueueCommand (UserCommand_at 1 c1) w of
               (q1, w1) \<Rightarrow>
                 (case new_QueueCommand (UserCommand_at 2 c2) w1 of
                    (q2, w2) \<Rightarrow>
                      QueueConsumer_start 5
                        (QueueConsumer_stop (QueueConsumer_enqueue q2 (QueueConsumer_enqueue q1 w2)))))"

text \<open>
  What a run shows of the queue command at address 0: its \<^verbatim>\<open>attemptNo\<close>, its status,
  the number of calls of the executor so far and the values given to the callbacks on its
  completion promise.
\<close>

definition progress :: "world \<Rightarrow> int option \<times> QueueStatus option \<times> nat \<times> (nat \<times> bool option) list" where
  "progress w = (attemptNo_of 0 w, status_of 0 w, length (executorCalls w), observed w)"

text \<open>A user command and a new orchestrator with an empty storage, for concrete runs.\<close>

definition sample_command :: UserCommand where
  "sample_command =
     \<lparr>type_tag = ''rename'', payload = [''title'' \<mapsto> JStr ''a''],
      meta = \<lparr>resourceId = Some ''system'', contextId = None, uuid = ''u1'', timestamp = 0,
               isPatch = False, isSensitiveData = False\<rparr>,
      onExecuteRef = 0\<rparr>"

definition new_orchestrator :: world where
  "new_orchestrator = new_world always_returns [] None ''id'' (Some consolidate) (Some [])"

text \<open>
  A sequence of calls of \<^verbatim>\<open>onExecute()\<close> and \<^verbatim>\<open>executed(b)\<close> on one user command:
  the object after them, the promises the calls of \<^verbatim>\<open>onExecute()\<close> returned and the jobs
  the calls of \<^verbatim>\<open>executed\<close> scheduled.
\<close>

datatype signal_call = OnExecute | Executed bool

fun later_calls ::
  "signal_call list \<Rightarrow> Deferred \<Rightarrow> Deferred \<times> future list \<times> (reaction \<times> bool option) list" where
  "later_calls [] d = (d, [], [])"
| "later_calls (OnExecute # cs) d =
     (case onExecute d of (f, d1) \<Rightarrow>
        (case later_calls cs d1 of (d2, fs, js) \<Rightarrow> (d2, f # fs, js)))"
| "later_calls (Executed b # cs) d =
     (case executed b d of (js1, d1) \<Rightarrow>
        (case later_calls cs d1 of (d2, fs, js) \<Rightarrow> (d2, fs, js1 @ js)))"

definition or_stop :: "(error + world) option \<Rightarrow> world option" where
  "or_stop r = (case r of None \<Rightarrow> None | Some (Inl e) \<Rightarrow> None | Some (Inr w) \<Rightarrow> Some w)"

text \<open>\<^verbatim>\<open>handleCommandAsync(u)\<close> is called, and the jobs run until none is left.\<close>

definition handle_and_run :: "UserCommand \<Rightarrow> world \<Rightarrow> world option" where
  "handle_and_run u w = Option.bind (or_stop (handleCommandAsync 5 u w)) (drain 5)"

text \<open>Three patch commands for the resource \<^verbatim>\<open>r1\<close>.\<close>

definition first_patch :: UserCommand where
  "first_patch =
     \<lparr>type_tag = ''patch'', payload = [''title'' \<mapsto> JStr ''old'', ''size'' \<mapsto> JNum 1],
      meta = \<lparr>resourceId = Some ''r1'', contextId = None, uuid = ''uA'', timestamp = 0,
               isPatch = True, isSensitiveData = False\<rparr>,
      onExecuteRef = 1\<rparr>"

definition second_patch :: UserCommand where
  "second_patch =
     \<lparr>type_tag = ''patch'', payload = [''title'' \<mapsto> JStr ''new'', ''color'' \<mapsto> JStr ''red''],
      meta = \<lparr>resourceId = Some ''r1'', contextId = None, uuid = ''uB'', timestamp = 1,
               isPatch = True, isSensitiveData = False\<rparr>,
      onExecuteRef = 2\<rparr>"

definition third_patch :: UserCommand where
  "third_patch =
     \<lparr>type_tag = ''patch'', payload = [''size'' \<mapsto> JNum 3],
      meta = \<lparr>resourceId = Some ''r1'', contextId = None, uuid = ''uC'', timestamp = 2,
               isPatch = True, isSensitiveData = False\<rparr>,
      onExecuteRef = 3\<rparr>"

text \<open>
  A first session: a new orchestrator (\<^verbatim>\<open>ItemConsolidator\<close>, a consumer without
  conditions, an empty storage) is initialized and \<open>first_patch\<close> is handled and saved;
  \<^verbatim>\<open>#consolidateCommand\<close> starts the consumer, the command is dispatched, and the
  session ends while it is in process.
\<close>

definition first_session :: "world option" where
  "first_session = Option.bind (drain 2 (initializeAsync new_orchestrator)) (handle_and_run first_patch)"

text \<open>
  A second session: an orchestrator with the same identifier is built over what the
  storage holds at the end of the first session. In \<open>recovered_and_admitted\<close> it is
  initialized (the record becomes the object at address 0); \<open>sample_command\<close> is handled
  (address 1); the orchestrator is started; then \<^verbatim>\<open>executed(true)\<close> is called on
  \<open>sample_command\<close>. In \<open>recovered_then_patched\<close> it is initialized and
  \<open>second_patch\<close> is handled.
\<close>

definition persisted :: "world option \<Rightarrow> (string \<times> QueueCommand) list option" where
  "persisted r = (case r of None \<Rightarrow> None | Some w \<Rightarrow> offlineStorage w)"

definition restarted_orchestrator :: world where
  "restarted_orchestrator =
     new_world always_returns [] None ''id'' (Some consolidate) (persisted first_session)"


definition recovered_then_patched :: "world option" where
  "recovered_then_patched =
     Option.bind (drain 2 (initializeAsync restarted_orchestrator)) (handle_and_run second_patch)"

text \<open>
  A new orchestrator (as in the first session) is initialized; in one synchronous block
  \<^verbatim>\<open>handleCommandAsync(first_patch)\<close> and \<^verbatim>\<open>stop()\<close> are called; the jobs run: the
  command is saved, tracked and enqueued, and waits in the queue of the paused consumer.
\<close>

definition first_patch_paused :: "world option" where
  "first_patch_paused =
     Option.bind (drain 2 (initializeAsync new_orchestrator)) (\<lambda>w1.
     Option.bind (or_stop (handleCommandAsync 5 first_patch w1)) (\<lambda>w2.
     Option.bind (or_stop (Some (Orchestrator_stop w2))) (drain 5)))"

text \<open>
  Then \<^verbatim>\<open>handleCommandAsync(second_patch)\<close> is called: the state when the call has
  returned its promise, before any job runs.
\<close>

definition second_patch_received :: "world option" where
  "second_patch_received =
     Option.bind first_patch_paused (\<lambda>w. or_stop (handleCommandAsync 5 second_patch w))"

text \<open>
  The run of the retry scenario up to the second dispatch: the consumer has the retry
  policy with \<^verbatim>\<open>retryCount\<close> 2 and an executor that returns; the command is
  dispatched, \<^verbatim>\<open>executed(false)\<close> is called and the reaction retries the command; the
  loop dispatches it again. \<open>pending_completion\<close> shows the jobs that call
  \<^verbatim>\<open>completedCommandExecution\<close>.
\<close>

definition retried_and_dispatched :: "UserCommand \<Rightarrow> world option" where
  "retried_and_dispatched c =
     Option.bind (Option.bind (one_command always_returns (Some [AttempNoRetryCondition 2]) c)
       (signal_then_run (onExecuteRef c) False)) (run_next 5)"

fun pending_completion :: "task \<Rightarrow> (nat \<times> bool option) option" where
  "pending_completion (Job (CompleteOnExecute q) v) = Some (q, v)"
| "pending_completion t = None"

text \<open>
  The consumer has the condition \<^verbatim>\<open>processCount < 1\<close> and the orchestrator
  \<^verbatim>\<open>ItemConsolidator\<close> and an empty storage; it is initialized and started;
  \<open>sample_command\<close> is handled and dispatched, and stays in process; then \<open>first_patch\<close>
  is handled, and waits in the queue.
\<close>

definition first_patch_waiting :: "world option" where
  "first_patch_waiting =
     Option.bind (drain 2 (initializeAsync
        (new_world always_returns [\<lambda>processCount. processCount < 1] None ''id'' (Some consolidate) (Some [])))) (\<lambda>w1.
     Option.bind (or_stop (Orchestrator_start 5 w1)) (\<lambda>w2.
     Option.bind (handle_and_run sample_command w2) (\<lambda>w3.
     handle_and_run first_patch w3)))"



text \<open>
  What a run shows of the commands of a resource: the keys in the storage, and for a
  command (one the executor was called with, one in the consumer's queue, one in the
  storage) its \<^verbatim>\<open>uuid\<close> and the \<^verbatim>\<open>title\<close>, \<^verbatim>\<open>size\<close> and \<^verbatim>\<open>color\<close> of its
  payload.
\<close>

definition stored_keys :: "world \<Rightarrow> string list" where
  "stored_keys w = (case offlineStorage w of None \<Rightarrow> [] | Some st \<Rightarrow> map fst st)"

definition payload_shown :: "UserCommand \<Rightarrow> string \<times> jsval option \<times> jsval option \<times> jsval option" where
  "payload_shown c = (uuid (meta c), payload c ''title'', payload c ''size'', payload c ''color'')"

definition stored_payloads :: "world \<Rightarrow> (string \<times> string \<times> jsval option \<times> jsval option \<times> jsval option) list" where
  "stored_payloads w =
     (case offlineStorage w of
        None \<Rightarrow> []
      | Some st \<Rightarrow> map (\<lambda>(k, qc). (k, payload_shown (command qc))) st)"

definition queued_payloads :: "world \<Rightarrow> (string \<times> jsval option \<times> jsval option \<times> jsval option) list" where
  "queued_payloads w =
     concat (map (\<lambda>q. case qheap w q of None \<Rightarrow> [] | Some qc \<Rightarrow> [payload_shown (command qc)]) (queue w))"

section \<open>Properties\<close>

subsection \<open>The completion promise of a queue command\<close>

text \<open>
  C1. The claim: the first \<^verbatim>\<open>completed(s)\<close> stores \<open>s\<close>, and any later
  \<^verbatim>\<open>onComplete()\<close>, also a first one made after \<^verbatim>\<open>completed(s)\<close>, returns a resolved
  promise carrying \<open>s\<close>. The code: on a new queue command, whose \<^verbatim>\<open>onComplete()\<close> has
  not been called, \<^verbatim>\<open>completed(s)\<close> changes nothing, and the \<^verbatim>\<open>onComplete()\<close> that
  follows returns a pending promise.
\<close>

theorem completed_before_onComplete_is_dropped:
  "case QueueCommand_new (Some c) now of
     Inl e \<Rightarrow> False
   | Inr qc \<Rightarrow>
       completed s qc = ([], qc) \<and>
       settled (onCompleteObj (snd (completed s qc))) = False \<and>
       result (onCompleteObj (snd (completed s qc))) = None \<and>
       fst (onComplete (snd (completed s qc))) = Pending"
  by (simp add: QueueCommand_new_def completed_def onComplete_def Deferred_new_def)

subsection \<open>Status listeners\<close>

text \<open>
  C2. The claim: every status change the consumer makes is notified to the status
  listeners. The code: after a dispatch and a successful completion the status is
  \<open>Complete\<close> and listener 7 has been called with \<open>Processing\<close> only; after a dispatch
  and a failure that is retried the status is \<open>Initial\<close> and the listener has been
  called with \<open>Processing\<close> only. (On a denied retry the listener is called with
  \<open>Complete\<close>.)
\<close>

theorem success_and_retry_do_not_notify:
  "map_option (\<lambda>w. (status_of 0 w, notifications w))
     (Option.bind (one_command always_returns None c) (signal_then_run (onExecuteRef c) True))
   = Some (Some Complete, [(7, Processing)]) \<and>
   map_option (\<lambda>w. (status_of 0 w, notifications w))
     (Option.bind (one_command always_returns (Some [AttempNoRetryCondition 2]) c)
        (signal_then_run (onExecuteRef c) False))
   = Some (Some Initial, [(7, Processing)]) \<and>
   map_option (\<lambda>w. (status_of 0 w, notifications w))
     (Option.bind (one_command always_returns None c) (signal_then_run (onExecuteRef c) False))
   = Some (Some Complete, [(7, Processing), (7, Complete)])"
  by code_simp

subsection \<open>Retries\<close>


subsection \<open>The count of commands in process and the status of a command\<close>

text \<open>
  C5. The claim: \<^verbatim>\<open>queueState.processCount\<close> is the number of commands whose status is
  \<open>Processing\<close>, and is never negative, when the executor signals completion once for
  each dispatch. The code: the executor throws at the first dispatch, which is retried,
  and calls \<^verbatim>\<open>executed(true)\<close> at the second. Both dispatches have registered a
  reaction on the same pending promise of \<^verbatim>\<open>onExecute()\<close>, so
  \<^verbatim>\<open>completedCommandExecution\<close> runs twice: no command is \<open>Processing\<close> and
  \<^verbatim>\<open>processCount\<close> is -1.
\<close>

theorem processCount_negative_after_throw_then_success:
  "map_option (\<lambda>w. (length (executorCalls w), processing_count w, processCount w))
     (one_command throws_first (Some [AttempNoRetryCondition 2]) c) = Some (2, 1, 1) \<and>
   map_option (\<lambda>w. (length (executorCalls w), length (tasks w), status_of 0 w, processing_count w, processCount w))
     (Option.bind (one_command throws_first (Some [AttempNoRetryCondition 2]) c)
        (\<lambda>w. drain 5 (UserCommand_executed (onExecuteRef c) True w)))
     = Some (2, 0, Some Complete, 0, - 1)"
  by code_simp

text \<open>
  C6. The claim: the status of a command moves only from \<open>Initial\<close> to \<open>Processing\<close>
  and from \<open>Processing\<close> to \<open>Complete\<close> or \<open>Initial\<close>, and \<open>Complete\<close> is final. The
  code: with \<^verbatim>\<open>retryCount\<close> 3, the executor throws at the first dispatch and calls
  \<^verbatim>\<open>executed(false)\<close> at the second. The first of the two reactions retries the
  command (\<open>Initial\<close>), the second is denied and sets \<open>Complete\<close> on the \<open>Initial\<close>
  command, which is still in the queue; the loop then dispatches the \<open>Complete\<close> command
  (\<open>Processing\<close>).
\<close>

theorem status_leaves_Complete_and_skips_Processing:
  "map_option (\<lambda>w. (status_of 0 w, queue w))
     (one_command throws_first (Some [AttempNoRetryCondition 3]) c) = Some (Some Processing, []) \<and>
   map_option (\<lambda>w. (status_of 0 w, queue w))
     (Option.bind (one_command throws_first (Some [AttempNoRetryCondition 3]) c)
        (signal_then_run (onExecuteRef c) False)) = Some (Some Initial, [0]) \<and>
   map_option (\<lambda>w. (status_of 0 w, queue w))
     (Option.bind (Option.bind (one_command throws_first (Some [AttempNoRetryCondition 3]) c)
        (signal_then_run (onExecuteRef c) False)) (run_next 5)) = Some (Some Complete, [0]) \<and>
   map_option (\<lambda>w. (status_of 0 w, queue w))
     (Option.bind (Option.bind (Option.bind (one_command throws_first (Some [AttempNoRetryCondition 3]) c)
        (signal_then_run (onExecuteRef c) False)) (run_next 5)) (run_next 5)) = Some (Some Processing, [])"
  by code_simp

subsection \<open>The dispatch loop\<close>

text \<open>
  C7. The claim: the loop checks the wait condition again after it is woken, and never
  dequeues while the queue is empty or a condition is false. The code: after the
  \<^verbatim>\<open>await\<close> the loop goes on to \<^verbatim>\<open>#dequeue\<close> without a check. First run: a command
  is enqueued (the loop is woken) and removed before the loop resumes; the loop dequeues
  from the empty queue and calls \<^verbatim>\<open>#processCommand(undefined)\<close>, whose promise is
  rejected. Second run: the condition is \<^verbatim>\<open>processCount < 1\<close>; two commands are
  enqueued (the loop is woken) and the consumer is stopped and started, which starts a
  second loop that dispatches the first command and waits; \<^verbatim>\<open>processCount\<close> is 1 and
  the wait condition holds when the first loop resumes, and it dispatches the second
  command.
\<close>

theorem woken_loop_dequeues_without_check:
  "map_option (\<lambda>w. (unhandled w, length (executorCalls w), queue w)) (enqueue_then_remove c)
     = Some (1, 0, []) \<and>
   map_option (\<lambda>w. (shouldConsumerWait w, processCount w, queue w, length (executorCalls w), length (tasks w)))
     (restart_while_woken c1 c2) = Some (True, 1, [1], 1, 1) \<and>
   map_option (\<lambda>w. (processCount w, queue w, length (executorCalls w), status_of 1 w))
     (Option.bind (restart_while_woken c1 c2) (run_next 5)) = Some (2, [], 2, Some Processing)"
  by code_simp

subsection \<open>Initialization of the orchestrator\<close>

lemma loadCommand_fields:
  "isRunning (loadCommand w obj) = isRunning w"
  "initialized (loadCommand w obj) = initialized w"
  "offlineStorage (loadCommand w obj) = offlineStorage w"
  "storageCalls (loadCommand w obj) = storageCalls w"
  "next_q (loadCommand w obj) = Suc (next_q w)"
  "\<not> isRunning w \<Longrightarrow> tasks (loadCommand w obj) = tasks w"
  by (simp_all add: loadCommand_def QueueConsumer_enqueue_def resumeOnConditionsSatisfied_def Let_def)


lemma foldl_loadCommand_tasks:
  "\<not> isRunning w \<Longrightarrow> tasks (foldl loadCommand w objs) = tasks w"
  by (induction objs arbitrary: w) (simp_all add: loadCommand_fields)

lemma first_initializeAsync:
  assumes "\<not> initialized w" "\<not> isRunning w" "tasks w = []"
  shows "\<exists>w'. drain 2 (initializeAsync w) = Some w' \<and> initialized w' \<and> tasks w' = []"
proof (cases "offlineStorage w")
  case None
  with assms show ?thesis
    by (simp add: initializeAsync_def loadCommands_rest_def initialize_rest_def eval_nat_numeral)
next
  case (Some st)
  with assms show ?thesis
    by (simp add: initializeAsync_def loadCommands_rest_def initialize_rest_def eval_nat_numeral
        foldl_loadCommand_tasks)
qed

text \<open>
  C8, as the claim states it, fails: \<^verbatim>\<open>stop\<close> has no guard. On a new orchestrator,
  not initialized, it returns without an error and stops the consumer.
\<close>

theorem stop_before_initialize_counterexample:
  "initialized new_orchestrator = False \<and>
   Orchestrator_stop new_orchestrator = Inr (QueueConsumer_stop new_orchestrator) \<and>
   Orchestrator_stop new_orchestrator \<noteq> Inl Uninitialized"
  by (simp add: new_orchestrator_def new_world_def Orchestrator_stop_def)

text \<open>
  C8, amended. On an orchestrator that is not initialized, \<^verbatim>\<open>handleCommandAsync\<close> and
  \<^verbatim>\<open>start\<close> fail with the error of \<^verbatim>\<open>#ensureInitialized\<close>; \<^verbatim>\<open>stop\<close> has no guard
  and stops the consumer, initialized or not. A first \<^verbatim>\<open>initializeAsync\<close> (on a
  consumer that is not running, with no job pending) ends with the orchestrator
  initialized. On an initialized orchestrator \<^verbatim>\<open>start\<close> is the consumer's \<^verbatim>\<open>start\<close>
  and \<^verbatim>\<open>handleCommandAsync\<close> raises no error, and \<^verbatim>\<open>initializeAsync\<close> changes
  nothing: the state after it, storage calls included, is the state before.
\<close>

theorem initialization_guard:
  "(\<not> initialized w \<longrightarrow>
      handleCommandAsync n userCommand w = Some (Inl Uninitialized) \<and>
      Orchestrator_start n w = Some (Inl Uninitialized)) \<and>
   Orchestrator_stop w = Inr (QueueConsumer_stop w) \<and>
   (\<not> initialized w \<and> \<not> isRunning w \<and> tasks w = [] \<longrightarrow>
      (\<exists>w'. drain 2 (initializeAsync w) = Some w' \<and> initialized w')) \<and>
   (initialized w \<longrightarrow>
      Orchestrator_start n w = map_option Inr (QueueConsumer_start n w) \<and>
      (\<forall>e. handleCommandAsync n userCommand w \<noteq> Some (Inl e))) \<and>
   (initialized w \<and> tasks w = [] \<longrightarrow> drain 1 (initializeAsync w) = Some w)"
proof -
  have a: "\<not> initialized w \<longrightarrow>
      handleCommandAsync n userCommand w = Some (Inl Uninitialized) \<and>
      Orchestrator_start n w = Some (Inl Uninitialized)"
    by (simp add: handleCommandAsync_def Orchestrator_start_def)
  have b: "Orchestrator_stop w = Inr (QueueConsumer_stop w)"
    by (simp add: Orchestrator_stop_def)
  have c: "\<not> initialized w \<and> \<not> isRunning w \<and> tasks w = [] \<longrightarrow>
      (\<exists>w'. drain 2 (initializeAsync w) = Some w' \<and> initialized w')"
    using first_initializeAsync[of w] by blast
  have d: "initialized w \<longrightarrow>
      Orchestrator_start n w = map_option Inr (QueueConsumer_start n w) \<and>
      (\<forall>e. handleCommandAsync n userCommand w \<noteq> Some (Inl e))"
    by (auto simp add: handleCommandAsync_def Orchestrator_start_def Let_def
        split: option.splits prod.splits)
  have e: "initialized w \<and> tasks w = [] \<longrightarrow> drain 1 (initializeAsync w) = Some w"
    by (simp add: initializeAsync_def initialize_rest_def)
  from a b c d e show ?thesis by blast
qed

theorem initialization_guard_witness:
  "handleCommandAsync 5 sample_command new_orchestrator = Some (Inl Uninitialized) \<and>
   Orchestrator_start 5 new_orchestrator = Some (Inl Uninitialized) \<and>
   (\<exists>w'. drain 2 (initializeAsync new_orchestrator) = Some w' \<and> initialized w' \<and>
      Orchestrator_start 5 w' = map_option Inr (QueueConsumer_start 5 w') \<and>
      handleCommandAsync 5 sample_command w' \<noteq> Some (Inl Uninitialized) \<and>
      storageCalls w' = [LoadByKeyPrefixAsync ''id-''] \<and>
      drain 1 (initializeAsync w') = Some w')"
proof -
  have h: "\<not> initialized new_orchestrator" "\<not> isRunning new_orchestrator" "tasks new_orchestrator = []"
    by (simp_all add: new_orchestrator_def new_world_def)
  from initialization_guard[of new_orchestrator 5 sample_command] h
  have 1: "handleCommandAsync 5 sample_command new_orchestrator = Some (Inl Uninitialized)"
    and 2: "Orchestrator_start 5 new_orchestrator = Some (Inl Uninitialized)"
    and 3: "\<exists>w'. drain 2 (initializeAsync new_orchestrator) = Some w' \<and> initialized w'"
    by blast+
  from 3 obtain w' where w': "drain 2 (initializeAsync new_orchestrator) = Some w'" "initialized w'"
    by blast
  have t: "tasks w' = []" "storageCalls w' = [LoadByKeyPrefixAsync ''id-'']"
    using w'(1)
    by (auto simp add: new_orchestrator_def new_world_def initializeAsync_def loadCommands_rest_def
        initialize_rest_def storage_loadByKeyPrefix_def eval_nat_numeral)
  from initialization_guard[of w' 5 sample_command] w'(2) t(1)
  have "Orchestrator_start 5 w' = map_option Inr (QueueConsumer_start 5 w')"
    and "handleCommandAsync 5 sample_command w' \<noteq> Some (Inl Uninitialized)"
    and "drain 1 (initializeAsync w') = Some w'"
    by blast+
  with 1 2 w' t show ?thesis by blast
qed

subsection \<open>The execution promise of a user command\<close>

lemma later_calls_settled:
  "settled d \<Longrightarrow> \<not> resolve d \<Longrightarrow>
   later_calls cs d = (d, replicate (length (filter (\<lambda>c. c = OnExecute) cs)) (Resolved (result d)), [])"
proof (induction cs)
  case Nil
  then show ?case by simp
next
  case (Cons c cs)
  then show ?case by (cases c) (simp_all add: onExecute_def executed_def)
qed

lemma handleRetry_xheap: "xheap (handleRetry q w) = xheap w"
  by (simp add: handleRetry_def QueueConsumer_enqueue_def resumeOnConditionsSatisfied_def
      set_status_def onStatusUpdate_at_def completed_at_def Let_def split: option.splits prod.splits)

lemma handleRetry_tasks: "\<exists>js. tasks (handleRetry q w) = tasks w @ js"
  by (simp add: handleRetry_def QueueConsumer_enqueue_def resumeOnConditionsSatisfied_def
      set_status_def onStatusUpdate_at_def completed_at_def Let_def split: option.splits prod.splits)

lemma processCommand_settled:
  assumes "qheap w q = Some qc" "methods qc" "onExecuteRef (command qc) = x"
    and "settled (xheap w x)" "result (xheap w x) = Some s" "\<not> resolve (xheap w x)"
  shows "\<exists>js. tasks (processCommand (Some q) w) = tasks w @ Job (CompleteOnExecute q) (Some s) # js"
    and "xheap (processCommand (Some q) w) = xheap w"
proof -
  let ?w1 = "onExecute_then x (CompleteOnExecute q) w"
  have w1: "?w1 = w\<lparr>tasks := tasks w @ [Job (CompleteOnExecute q) (Some s)]\<rparr>"
    using assms(4,5) by (simp add: onExecute_then_def onExecute_def then_reaction_def)
  let ?w4 = "(onStatusUpdate_at q Processing (set_status q Processing ?w1))
               \<lparr>processCount := processCount (onStatusUpdate_at q Processing (set_status q Processing ?w1)) + 1,
                executorCalls := executorCalls (onStatusUpdate_at q Processing (set_status q Processing ?w1)) @ [command qc]\<rparr>"
  have t4: "tasks ?w4 = tasks w @ [Job (CompleteOnExecute q) (Some s)]" and x4: "xheap ?w4 = xheap w"
    using assms(1,2) by (simp_all add: w1 set_status_def onStatusUpdate_at_def)
  have p: "processCommand (Some q) w = ?w4 \<or> processCommand (Some q) w = handleRetry q ?w4"
    using assms(1,2,3) by (simp add: processCommand_def Let_def split: outcome.splits)
  from handleRetry_tasks[of q ?w4] obtain js where js: "tasks (handleRetry q ?w4) = tasks ?w4 @ js"
    by blast
  from p show "\<exists>js. tasks (processCommand (Some q) w) = tasks w @ Job (CompleteOnExecute q) (Some s) # js"
  proof
    assume "processCommand (Some q) w = ?w4"
    with t4 show ?thesis by simp
  next
    assume "processCommand (Some q) w = handleRetry q ?w4"
    with js t4 show ?thesis by simp
  qed
  from p show "xheap (processCommand (Some q) w) = xheap w"
    using x4 handleRetry_xheap[of q ?w4] by auto
qed

lemma executed_settled_noop:
  "\<not> resolve (xheap w x) \<Longrightarrow> UserCommand_executed x b w = w"
  by (simp add: UserCommand_executed_def executed_def)

text \<open>
  C9, as the claim states it, fails: the outcome of the work done again can decide the
  completion result. In the retry scenario for \<open>sample_command\<close>, after the first attempt
  has failed with \<^verbatim>\<open>executed(false)\<close> and the command has been dispatched again, the
  job of the new subscription, carrying \<^verbatim>\<open>false\<close>, is in the microtask queue. When
  that job runs next, the retry is denied and the completion callback gets \<^verbatim>\<open>false\<close>.
  When the executor reports the success of the second attempt with
  \<^verbatim>\<open>completedCommandExecution(queueCommand, true)\<close> before it returns, so before that
  job runs, the completion callback gets \<^verbatim>\<open>true\<close>.
\<close>

theorem reported_success_of_retried_work_counterexample:
  "map_option (\<lambda>w. (progress w, map pending_completion (tasks w)))
     (retried_and_dispatched sample_command)
     = Some ((Some 1, Some Processing, 2, []), [Some (0, Some False)]) \<and>
   map_option (\<lambda>w. (progress w, processCount w))
     (Option.bind (retried_and_dispatched sample_command) (drain 5))
     = Some ((Some 2, Some Complete, 2, [(0, Some False)]), 0) \<and>
   map_option (\<lambda>w. (progress w, processCount w))
     (Option.bind (map_option (completedCommandExecution 0 True)
        (retried_and_dispatched sample_command)) (drain 5))
     = Some ((Some 2, Some Complete, 2, [(0, Some True)]), - 1)"
  by code_simp

text \<open>
  C9, amended: the outcome of the work done again cannot reach the completion result
  through \<^verbatim>\<open>executed\<close>. Let \<^verbatim>\<open>executed(s)\<close> be called on a user command while the
  resolver is held. Then the object is settled with result \<open>s\<close>, and in whatever sequence
  of calls follows, each \<^verbatim>\<open>onExecute()\<close> returns a promise already resolved with \<open>s\<close>
  and each \<^verbatim>\<open>executed(b)\<close> schedules nothing and changes nothing. So, when a queue
  command \<open>q\<close> (made by the constructor) whose user command is settled with result \<open>s\<close>
  is dispatched, \<^verbatim>\<open>#processCommand\<close> queues at once the job that calls
  \<^verbatim>\<open>completedCommandExecution(q, s)\<close>; a call of \<^verbatim>\<open>executed(b)\<close> made for the new
  execution leaves the whole state as it is, whatever \<open>b\<close>; and the job, for \<open>s\<close> false,
  runs the retry handler.
\<close>

theorem settled_execution_result_is_reused:
  "(resolve d \<longrightarrow>
      settled (snd (executed s d)) \<and> result (snd (executed s d)) = Some s \<and>
      \<not> resolve (snd (executed s d)) \<and>
      later_calls cs (snd (executed s d)) =
        (snd (executed s d),
         replicate (length (filter (\<lambda>c. c = OnExecute) cs)) (Resolved (Some s)), [])) \<and>
   (qheap w q = Some qc \<and> methods qc \<and> onExecuteRef (command qc) = x \<and>
    settled (xheap w x) \<and> result (xheap w x) = Some s \<and> \<not> resolve (xheap w x) \<longrightarrow>
      (\<exists>js. tasks (processCommand (Some q) w) = tasks w @ Job (CompleteOnExecute q) (Some s) # js) \<and>
      (\<forall>b. UserCommand_executed x b (processCommand (Some q) w) = processCommand (Some q) w)) \<and>
   (\<not> plain_object q v \<longrightarrow>
      run_task n (Job (CompleteOnExecute q) (Some False)) v =
        Some (resumeOnConditionsSatisfied (handleRetry q v)))"
proof -
  have a: "resolve d \<longrightarrow>
      settled (snd (executed s d)) \<and> result (snd (executed s d)) = Some s \<and>
      \<not> resolve (snd (executed s d)) \<and>
      later_calls cs (snd (executed s d)) =
        (snd (executed s d),
         replicate (length (filter (\<lambda>c. c = OnExecute) cs)) (Resolved (Some s)), [])"
  proof
    assume r: "resolve d"
    then have e: "settled (snd (executed s d))" "result (snd (executed s d)) = Some s"
      "\<not> resolve (snd (executed s d))"
      by (simp_all add: executed_def)
    from later_calls_settled[OF e(1) e(3), of cs] e show
      "settled (snd (executed s d)) \<and> result (snd (executed s d)) = Some s \<and>
       \<not> resolve (snd (executed s d)) \<and>
       later_calls cs (snd (executed s d)) =
         (snd (executed s d),
          replicate (length (filter (\<lambda>c. c = OnExecute) cs)) (Resolved (Some s)), [])"
      by simp
  qed
  have b: "qheap w q = Some qc \<and> methods qc \<and> onExecuteRef (command qc) = x \<and>
    settled (xheap w x) \<and> result (xheap w x) = Some s \<and> \<not> resolve (xheap w x) \<longrightarrow>
      (\<exists>js. tasks (processCommand (Some q) w) = tasks w @ Job (CompleteOnExecute q) (Some s) # js) \<and>
      (\<forall>b. UserCommand_executed x b (processCommand (Some q) w) = processCommand (Some q) w)"
  proof
    assume h: "qheap w q = Some qc \<and> methods qc \<and> onExecuteRef (command qc) = x \<and>
      settled (xheap w x) \<and> result (xheap w x) = Some s \<and> \<not> resolve (xheap w x)"
    then have 1: "\<exists>js. tasks (processCommand (Some q) w) = tasks w @ Job (CompleteOnExecute q) (Some s) # js"
      and 2: "xheap (processCommand (Some q) w) = xheap w"
      using processCommand_settled[of w q qc x s] by blast+
    from 2 h have "\<not> resolve (xheap (processCommand (Some q) w) x)" by simp
    then have "\<forall>b. UserCommand_executed x b (processCommand (Some q) w) = processCommand (Some q) w"
      using executed_settled_noop by blast
    with 1 show "(\<exists>js. tasks (processCommand (Some q) w) = tasks w @ Job (CompleteOnExecute q) (Some s) # js) \<and>
      (\<forall>b. UserCommand_executed x b (processCommand (Some q) w) = processCommand (Some q) w)"
      by blast
  qed
  have c: "\<not> plain_object q v \<longrightarrow>
      run_task n (Job (CompleteOnExecute q) (Some False)) v =
        Some (resumeOnConditionsSatisfied (handleRetry q v))"
    by (simp add: completedCommandExecution_def or_false_def)
  from a b c show ?thesis by blast
qed

theorem settled_execution_result_is_reused_witness:
  "\<exists>w. Option.bind (one_command always_returns (Some [AttempNoRetryCondition 2]) sample_command)
          (signal_then_run 0 False) = Some w \<and>
        status_of 0 w = Some Initial \<and>
        (\<exists>js. tasks (processCommand (Some 0) w) = tasks w @ Job (CompleteOnExecute 0) (Some False) # js) \<and>
        UserCommand_executed 0 True (processCommand (Some 0) w) = processCommand (Some 0) w \<and>
        run_task 5 (Job (CompleteOnExecute 0) (Some False)) (processCommand (Some 0) w) =
          Some (resumeOnConditionsSatisfied (handleRetry 0 (processCommand (Some 0) w))) \<and>
        later_calls [OnExecute, Executed True, OnExecute] (snd (executed False (snd (onExecute Deferred_new)))) =
          (snd (executed False (snd (onExecute Deferred_new))),
           [Resolved (Some False), Resolved (Some False)], []) \<and>
        map_option observed
          (Option.bind (map_option (UserCommand_executed 0 True) (retried_and_dispatched sample_command))
             (drain 5)) = Some [(0, Some False)]"
proof -
  have f: "map_option (\<lambda>w. (map_option (\<lambda>qc. (methods qc, onExecuteRef (command qc))) (qheap w 0),
               settled (xheap w 0), result (xheap w 0), resolve (xheap w 0), status_of 0 w,
               plain_object 0 (processCommand (Some 0) w)))
        (Option.bind (one_command always_returns (Some [AttempNoRetryCondition 2]) sample_command)
           (signal_then_run 0 False))
      = Some (Some (True, 0), True, Some False, False, Some Initial, False)"
    by code_simp
  have g: "map_option observed
          (Option.bind (map_option (UserCommand_executed 0 True) (retried_and_dispatched sample_command))
             (drain 5)) = Some [(0, Some False)]"
    by code_simp
  from f obtain w where w:
    "Option.bind (one_command always_returns (Some [AttempNoRetryCondition 2]) sample_command)
       (signal_then_run 0 False) = Some w"
    by blast
  with f obtain qc where qc: "qheap w 0 = Some qc" "methods qc" "onExecuteRef (command qc) = 0"
    and x: "settled (xheap w 0)" "result (xheap w 0) = Some False" "\<not> resolve (xheap w 0)"
    and st: "status_of 0 w = Some Initial"
    and pl: "\<not> plain_object 0 (processCommand (Some 0) w)"
    by auto
  have r: "resolve (snd (onExecute Deferred_new))"
    by (simp add: onExecute_def Deferred_new_def)
  from settled_execution_result_is_reused[where w = w and q = 0 and qc = qc and x = 0 and s = False
      and d = "snd (onExecute Deferred_new)" and cs = "[OnExecute, Executed True, OnExecute]"
      and v = "processCommand (Some 0) w" and n = 5]
    qc x r pl
  have "\<exists>js. tasks (processCommand (Some 0) w) = tasks w @ Job (CompleteOnExecute 0) (Some False) # js"
    and "UserCommand_executed 0 True (processCommand (Some 0) w) = processCommand (Some 0) w"
    and "run_task 5 (Job (CompleteOnExecute 0) (Some False)) (processCommand (Some 0) w) =
          Some (resumeOnConditionsSatisfied (handleRetry 0 (processCommand (Some 0) w)))"
    and "later_calls [OnExecute, Executed True, OnExecute] (snd (executed False (snd (onExecute Deferred_new)))) =
          (snd (executed False (snd (onExecute Deferred_new))),
           [Resolved (Some False), Resolved (Some False)], [])"
    by simp_all
  with w st g show ?thesis by blast
qed

subsection \<open>Commands recovered from the storage\<close>











lemma serialized_plain: "\<not> methods (serialized qc)"
  by (simp add: serialized_def)








subsection \<open>Consolidation of patch commands\<close>

text \<open>
  C4. The claim: when a second patch command arrives for a resource whose queue command
  is still \<open>Initial\<close>, one queue command only is ever enqueued and persisted for the
  resource, with the merged payload \<^verbatim>\<open>consolidate(incoming, existing)\<close> in which the
  existing fields win, and the prior one is untracked and depersisted. The code merges
  the payloads as claimed (\<^verbatim>\<open>title\<close> stays \<^verbatim>\<open>old\<close>), but:
  \<^item> First run: \<open>first_patch\<close> waits in the queue of the paused consumer (nothing has
    been executed). While \<open>second_patch\<close> is handled, the \<^verbatim>\<open>start()\<close> of
    \<^verbatim>\<open>#consolidateCommand\<close> dispatches the prior command, which is still in the queue
    (its removal waits behind an \<^verbatim>\<open>await\<close>): the executor is called with the payload
    that was not merged, and after the jobs with the merged one too.
  \<^item> Second run: the consumer's condition keeps the patches in the queue. After
    \<open>second_patch\<close> one merged command is queued and stored, but the patch index has no
    entry for the resource: the rest of \<^verbatim>\<open>#removeQueueCommandAsync\<close> of the prior
    command has deleted the entry of the new one. \<open>third_patch\<close> is then queued and
    stored beside the merged command, not merged.
  \<^item> Third run: the prior command was recovered from the storage. Its key is computed
    as \<^verbatim>\<open>id-undefined\<close>, so its record stays in the storage beside the merged one; the
    \<^verbatim>\<open>start()\<close> dispatches the prior command, which ends \<open>Complete\<close> with a
    \<^verbatim>\<open>TypeError\<close>.
\<close>

theorem consolidation_leaves_two_commands_for_a_resource:
  "map_option (\<lambda>w. (queued_payloads w, map payload_shown (executorCalls w), status_of 0 w, isRunning w))
     first_patch_paused
     = Some ([(''uA'', Some (JStr ''old''), Some (JNum 1), None)], [], Some Initial, False) \<and>
   map_option (\<lambda>w. (map payload_shown (executorCalls w), status_of 0 w, stored_payloads w))
     second_patch_received
     = Some ([(''uA'', Some (JStr ''old''), Some (JNum 1), None)], Some Processing,
             [(''id-r1uB'', ''uB'', Some (JStr ''old''), Some (JNum 1), Some (JStr ''red''))]) \<and>
   map_option (\<lambda>w. (map payload_shown (executorCalls w), queueCommands w, length (tasks w)))
     (Option.bind first_patch_paused (handle_and_run second_patch))
     = Some ([(''uA'', Some (JStr ''old''), Some (JNum 1), None),
              (''uB'', Some (JStr ''old''), Some (JNum 1), Some (JStr ''red''))], [1], 0) \<and>
   map_option (\<lambda>w. (queued_payloads w, stored_keys w, patchQueueCommands w (Some ''r1''), queueCommands w))
     first_patch_waiting
     = Some ([(''uA'', Some (JStr ''old''), Some (JNum 1), None)],
             [''id-systemu1'', ''id-r1uA''], Some 1, [0, 1]) \<and>
   map_option (\<lambda>w. (queued_payloads w, stored_keys w, patchQueueCommands w (Some ''r1''), queueCommands w))
     (Option.bind first_patch_waiting (handle_and_run second_patch))
     = Some ([(''uB'', Some (JStr ''old''), Some (JNum 1), Some (JStr ''red''))],
             [''id-systemu1'', ''id-r1uB''], None, [0, 2]) \<and>
   map_option (\<lambda>w. (queued_payloads w, stored_keys w, patchQueueCommands w (Some ''r1''), queueCommands w,
                     map payload_shown (executorCalls w)))
     (Option.bind (Option.bind first_patch_waiting (handle_and_run second_patch))
        (handle_and_run third_patch))
     = Some ([(''uB'', Some (JStr ''old''), Some (JNum 1), Some (JStr ''red'')),
              (''uC'', None, Some (JNum 3), None)],
             [''id-systemu1'', ''id-r1uB'', ''id-r1uC''], Some 3, [0, 2, 3],
             [(''u1'', Some (JStr ''a''), None, None)]) \<and>
   map_option (\<lambda>w. (stored_payloads w, storageCalls w, status_of 0 w, unhandled w, queueCommands w))
     recovered_then_patched
     = Some ([(''id-r1uA'', ''uA'', Some (JStr ''old''), Some (JNum 1), None),
              (''id-r1uB'', ''uB'', Some (JStr ''old''), Some (JNum 1), Some (JStr ''red''))],
             [LoadByKeyPrefixAsync ''id-'', RemoveAsync ''id-undefined'', SaveAsync ''id-r1uB''],
             Some Complete, 1, [1])"
  by code_simp

end
